theory Spec2Isabelle
  imports Complex_Main "HOL-Library.Sublist"
begin

section \<open>Python values used by the GA4 Measurement Protocol destination\<close>

text \<open>
  An event record maps field names to scalar values (\<open>Dict[str, Any]\<close> filled by the
  query engine with one scalar per column). Floating point scalars are left out.
  JSON values are what \<open>response.json()\<close> returns and what the payload dictionaries hold;
  a dictionary keeps its insertion order, so it is an association list.
\<close>

datatype scalar = SNone | SBool bool | SInt int | SStr string

datatype json =
    JNull
  | JBool bool
  | JInt int
  | JStr string
  | JList "json list"
  | JDict "(string \<times> json) list"

fun of_scalar :: "scalar \<Rightarrow> json" where
  "of_scalar SNone = JNull"
| "of_scalar (SBool b) = JBool b"
| "of_scalar (SInt i) = JInt i"
| "of_scalar (SStr s) = JStr s"

text \<open>Decimal rendering of a natural number, as \<open>str\<close> prints an \<open>int\<close>.\<close>

definition digit_char :: "nat \<Rightarrow> char" where
  "digit_char d = char_of (of_char CHR ''0'' + d)"

fun str_of_nat :: "nat \<Rightarrow> string" where
  "str_of_nat n = (if n < 10 then [digit_char n] else str_of_nat (n div 10) @ [digit_char (n mod 10)])"

declare str_of_nat.simps [simp del]

text \<open>Python's \<open>str(x)\<close> on a scalar.\<close>

fun py_str :: "scalar \<Rightarrow> string" where
  "py_str SNone = ''None''"
| "py_str (SBool b) = (if b then ''True'' else ''False'')"
| "py_str (SInt i) = (if i < 0 then CHR ''-'' # str_of_nat (nat (- i)) else str_of_nat (nat i))"
| "py_str (SStr s) = s"

text \<open>\<open>event.get(key, "")\<close> on an event record.\<close>

definition event_get :: "(string \<rightharpoonup> scalar) \<Rightarrow> string \<Rightarrow> scalar" where
  "event_get event k = (case event k of None \<Rightarrow> SStr '''' | Some v \<Rightarrow> v)"

section \<open>Error codes and exceptions\<close>

text \<open>
  The members of \<open>errors.ErrorNameIDMap\<close> that the destination names. An exception carries
  in \<open>error_num\<close> either a member or, where the source writes \<open>.value\<close>, the member's
  numeric value.
\<close>

datatype ErrorNameIDMap =
    GA4_HOOK_ERROR_VALUE_REQUIRED_CLIENT_ID
  | GA4_HOOK_ERROR_VALUE_INVALID_USER_ID
  | GA4_HOOK_ERROR_VALUE_INVALID_TIMESTAMP_MICROS
  | GA4_HOOK_ERROR_VALUE_INVALID_USER_PROPERTIES
  | GA4_HOOK_ERROR_VALUE_INVALID_NON_PERSONALIZED_ADS
  | GA4_HOOK_ERROR_VALUE_INVALID_EVENTS
  | GA4_HOOK_ERROR_VALUE_INVALID_EVENTS_PARAMS
  | GA4_HOOK_ERROR_VALUE_INVALID_EVENTS_PARAMS_ITEMS
  | GA4_HOOK_ERROR_INVALID_VALUES
  | RETRIABLE_GA4_HOOK_ERROR_HTTP_ERROR
  | NON_RETRIABLE_ERROR_EVENT_NOT_SENT
  | RETRIABLE_GA_HOOK_ERROR_HTTP_ERROR

datatype error_num = Member ErrorNameIDMap | ValueOf ErrorNameIDMap

text \<open>The message argument of the exceptions the destination raises.\<close>

datatype message =
    NoMessage
  | MissingApiSecret
  | UnsupportedPayloadType "string option"
  | MissingFirebaseAppId
  | MissingMeasurementId
  | SendDidNotComplete

text \<open>
  Exceptions as values. The two connector errors carry \<open>msg\<close> and \<open>error_num\<close>
  (\<open>None\<close> when the raise leaves \<open>error_num\<close> to the constructor's default); the
  others are the built-in errors the code can run into, the JSON decoding error of a
  response body, an exception of the \<open>requests\<close> library that is no connection error,
  and the transport error of the asynchronous HTTP client.
\<close>

datatype exn =
    DataOutConnectorValueError message "error_num option"
  | DataOutConnectorSendUnsuccessfulError message "error_num option"
  | KeyError
  | TypeError
  | AttributeError
  | IndexError
  | ValueError
  | OverflowError
  | SyntaxError
  | JSONDecodeError
  | RequestException
  | TransportError

section \<open>The network and the log\<close>

text \<open>
  What a \<open>requests.post\<close> call comes back with: the library raises
  \<open>requests.ConnectionError\<close> (or a subclass of it), or it raises another of its
  exceptions that is no connection error (\<open>ChunkedEncodingError\<close>,
  \<open>ContentDecodingError\<close>, \<open>TooManyRedirects\<close>, \<open>InvalidJSONError\<close>), or it returns a
  response with a status code and a body; the body either parses as JSON
  (\<open>response.json()\<close> returns the value) or makes \<open>response.json()\<close> raise
  \<open>json.JSONDecodeError\<close>. The asynchronous client of the Airflow client ends a request
  in the same three ways.
\<close>

datatype body = NotJson | Json json

datatype http_outcome = ConnectionError | OtherRequestError | Response int body

text \<open>
  The world outside the process: the POST requests issued so far (URL and JSON body, in
  order) and the calls of \<open>logging.error\<close> (its two arguments). The servers are a function
  \<open>net\<close> from the number of requests already issued to the outcome of the next one, so
  that every sequence of outcomes is a possible network. The \<open>print\<close> calls of
  \<open>send_data\<close> are not recorded.
\<close>

record world =
  posts :: "(string \<times> json) list"
  errlog :: "(json \<times> json) list"

definition world0 :: world where
  "world0 = \<lparr>posts = [], errlog = []\<rparr>"

definition requests_post ::
  "(nat \<Rightarrow> http_outcome) \<Rightarrow> string \<Rightarrow> json \<Rightarrow> world \<Rightarrow> http_outcome \<times> world" where
  "requests_post net url js w = (net (length (posts w)), w\<lparr>posts := posts w @ [(url, js)]\<rparr>)"

definition logging_error :: "json \<Rightarrow> json \<Rightarrow> world \<Rightarrow> world" where
  "logging_error field_path description w = w\<lparr>errlog := errlog w @ [(field_path, description)]\<rparr>"

section \<open>Python's operators on JSON values\<close>

text \<open>\<open>not v\<close> is \<open>\<not> py_truthy v\<close>.\<close>

fun py_truthy :: "json \<Rightarrow> bool" where
  "py_truthy JNull = False"
| "py_truthy (JBool b) = b"
| "py_truthy (JInt i) = (i \<noteq> 0)"
| "py_truthy (JStr s) = (s \<noteq> [])"
| "py_truthy (JList xs) = (xs \<noteq> [])"
| "py_truthy (JDict d) = (d \<noteq> [])"

text \<open>\<open>v[key]\<close> for a string key: only a dictionary accepts it.\<close>

fun py_getitem :: "json \<Rightarrow> string \<Rightarrow> exn + json" where
  "py_getitem (JDict d) k = (case map_of d k of None \<Rightarrow> Inl KeyError | Some v \<Rightarrow> Inr v)"
| "py_getitem _ k = Inl TypeError"

text \<open>\<open>v[0]\<close>: the first element of a list, the first character of a string; a JSON
  dictionary has string keys only, so \<open>0\<close> is never one of them.\<close>

fun py_getitem0 :: "json \<Rightarrow> exn + json" where
  "py_getitem0 (JList []) = Inl IndexError"
| "py_getitem0 (JList (x # xs)) = Inr x"
| "py_getitem0 (JStr []) = Inl IndexError"
| "py_getitem0 (JStr (c # cs)) = Inr (JStr [c])"
| "py_getitem0 (JDict d) = Inl KeyError"
| "py_getitem0 _ = Inl TypeError"

text \<open>\<open>v.get(key, "")\<close>: only a dictionary has the method.\<close>

fun py_get :: "json \<Rightarrow> string \<Rightarrow> exn + json" where
  "py_get (JDict d) k = (case map_of d k of None \<Rightarrow> Inr (JStr '''') | Some v \<Rightarrow> Inr v)"
| "py_get _ k = Inl AttributeError"

text \<open>\<open>v == s\<close> for a string \<open>s\<close>.\<close>

fun py_eq_str :: "json \<Rightarrow> string \<Rightarrow> bool" where
  "py_eq_str (JStr t) s = (t = s)"
| "py_eq_str _ s = False"

text \<open>\<open>s in v\<close> for a string \<open>s\<close>: a substring test on a string, membership in a list,
  a key test on a dictionary, and a \<open>TypeError\<close> on anything else.\<close>

fun py_in :: "string \<Rightarrow> json \<Rightarrow> exn + bool" where
  "py_in s (JStr t) = Inr (sublist s t)"
| "py_in s (JList xs) = Inr (JStr s \<in> set xs)"
| "py_in s (JDict d) = Inr (s \<in> fst ` set d)"
| "py_in s _ = Inl TypeError"

section \<open>The destination\<close>

definition GA_EVENT_POST_URL :: string where
  "GA_EVENT_POST_URL = ''https://www.google-analytics.com/mp/collect''"

definition GA_EVENT_VALIDATION_URL :: string where
  "GA_EVENT_VALIDATION_URL = ''https://www.google-analytics.com/debug/mp/collect''"

text \<open>The error table, in the order the source writes it (a dictionary iterates in
  insertion order).\<close>

definition ERROR_TYPES :: "(string \<times> ErrorNameIDMap) list" where
  "ERROR_TYPES =
    [(''client_id'', GA4_HOOK_ERROR_VALUE_REQUIRED_CLIENT_ID),
     (''user_id'', GA4_HOOK_ERROR_VALUE_INVALID_USER_ID),
     (''timestamp_micros'', GA4_HOOK_ERROR_VALUE_INVALID_TIMESTAMP_MICROS),
     (''user_properties'', GA4_HOOK_ERROR_VALUE_INVALID_USER_PROPERTIES),
     (''non_personalized_ads'', GA4_HOOK_ERROR_VALUE_INVALID_NON_PERSONALIZED_ADS),
     (''events'', GA4_HOOK_ERROR_VALUE_INVALID_EVENTS),
     (''events.params'', GA4_HOOK_ERROR_VALUE_INVALID_EVENTS_PARAMS),
     (''events.params.items'', GA4_HOOK_ERROR_VALUE_INVALID_EVENTS_PARAMS_ITEMS)]"

text \<open>
  The configuration dictionary, with the keys and value types that \<open>GA4Base\<close>,
  \<open>GA4Web\<close> and \<open>GA4App\<close> declare; \<open>None\<close> is what \<open>config.get\<close> returns for a key
  that is absent or null.
\<close>

record config =
  cfg_payload_type :: "string option"
  cfg_api_secret :: "string option"
  cfg_firebase_app_id :: "string option"
  cfg_measurement_id :: "string option"
  cfg_non_personalized_ads :: "bool option"
  cfg_user_properties :: "(string \<times> (string \<times> string) list) list option"
  cfg_debug :: "bool option"

text \<open>The attributes of a \<open>Destination\<close> object; an attribute that \<open>__init__\<close> has not
  set is \<open>None\<close>.\<close>

record destination =
  payload_type :: "string option"
  api_secret :: "string option"
  firebase_app_id :: "string option"
  measurement_id :: "string option"
  non_personalized_ads :: bool
  user_properties :: "(string \<times> (string \<times> string) list) list option"
  debug :: bool
  post_url :: string
  validate_url :: string

definition FIREBASE :: string where
  "FIREBASE = ''firebase''"

definition GTAG :: string where
  "GTAG = ''gtag''"

text \<open>\<open>not s\<close> for an optional string: \<open>None\<close> and the empty string are falsy.\<close>

definition falsy_str :: "string option \<Rightarrow> bool" where
  "falsy_str s = (case s of None \<Rightarrow> True | Some t \<Rightarrow> t = [])"

definition validate_credentials :: "destination \<Rightarrow> exn + unit" where
  "validate_credentials self =
    (if falsy_str (api_secret self) then Inl (DataOutConnectorValueError MissingApiSecret None)
     else if payload_type self \<noteq> Some FIREBASE \<and> payload_type self \<noteq> Some GTAG
       then Inl (DataOutConnectorValueError (UnsupportedPayloadType (payload_type self)) None)
     else if payload_type self = Some FIREBASE \<and> falsy_str (firebase_app_id self)
       then Inl (DataOutConnectorValueError MissingFirebaseAppId None)
     else if payload_type self = Some GTAG \<and> falsy_str (measurement_id self)
       then Inl (DataOutConnectorValueError MissingMeasurementId None)
     else Inr ())"

text \<open>\<open>"{}".format(x)\<close> on an optional string.\<close>

definition fmt :: "string option \<Rightarrow> string" where
  "fmt s = (case s of None \<Rightarrow> ''None'' | Some t \<Rightarrow> t)"

definition build_api_url :: "destination \<Rightarrow> bool \<Rightarrow> string" where
  "build_api_url self is_post =
    (let query_url =
       (if payload_type self = Some GTAG
        then ''api_secret='' @ fmt (api_secret self) @ ''&measurement_id='' @ fmt (measurement_id self)
        else ''api_secret='' @ fmt (api_secret self) @ ''&firebase_app_id='' @ fmt (firebase_app_id self))
     in if is_post then GA_EVENT_POST_URL @ ''?'' @ query_url
        else GA_EVENT_VALIDATION_URL @ ''?'' @ query_url)"

text \<open>\<open>Destination.__init__\<close>: it reads the configuration, checks the credentials and
  builds the two URLs; it issues no request, so it does not touch the world.\<close>

definition Destination_init :: "config \<Rightarrow> exn + destination" where
  "Destination_init cfg =
    (let self = \<lparr>payload_type = cfg_payload_type cfg,
                 api_secret = cfg_api_secret cfg,
                 firebase_app_id =
                   (if cfg_payload_type cfg = Some FIREBASE then cfg_firebase_app_id cfg else None),
                 measurement_id =
                   (if cfg_payload_type cfg \<noteq> Some FIREBASE \<and> cfg_payload_type cfg = Some GTAG
                    then cfg_measurement_id cfg else None),
                 non_personalized_ads =
                   (case cfg_non_personalized_ads cfg of None \<Rightarrow> False | Some b \<Rightarrow> b),
                 user_properties =
                   (case cfg_user_properties cfg of None \<Rightarrow> None
                    | Some up \<Rightarrow> if up = [] then None else Some up),
                 debug = (case cfg_debug cfg of None \<Rightarrow> False | Some b \<Rightarrow> b),
                 post_url = [], validate_url = []\<rparr>
     in case validate_credentials self of
          Inl e \<Rightarrow> Inl e
        | Inr u \<Rightarrow>
            (let self1 = self\<lparr>post_url := build_api_url self True\<rparr>
             in Inr (self1\<lparr>validate_url := build_api_url self1 False\<rparr>)))"

text \<open>Assignment \<open>d[k] = v\<close> on an insertion-ordered dictionary.\<close>

fun dict_set :: "(string \<times> json) list \<Rightarrow> string \<Rightarrow> json \<Rightarrow> (string \<times> json) list" where
  "dict_set [] k v = [(k, v)]"
| "dict_set ((k', v') # d) k v = (if k' = k then (k, v) # d else (k', v') # dict_set d k v)"

definition json_of_user_properties :: "(string \<times> (string \<times> string) list) list \<Rightarrow> json" where
  "json_of_user_properties up = JDict (map (\<lambda>(k, d). (k, JDict (map (\<lambda>(k', s). (k', JStr s)) d))) up)"

text \<open>The payload that the loop of \<open>_get_valid_and_invalid_events\<close> builds for one event.\<close>

definition build_payload :: "destination \<Rightarrow> (string \<rightharpoonup> scalar) \<Rightarrow> (string \<times> json) list" where
  "build_payload self event =
    (let payload0 = [];
         payload1 =
           (if payload_type self = Some FIREBASE
              then dict_set payload0 ''app_instance_id'' (of_scalar (event_get event ''app_instance_id''))
            else if payload_type self = Some GTAG
              then dict_set payload0 ''client_id'' (JStr (py_str (event_get event ''client_id'')))
            else payload0);
         payload2 = dict_set payload1 ''user_id'' (JStr (py_str (event_get event ''user_id'')));
         payload3 = dict_set payload2 ''non_personalized_ads'' (JBool (non_personalized_ads self));
         payload4 =
           (case user_properties self of
              None \<Rightarrow> payload3
            | Some up \<Rightarrow>
                if up \<noteq> [] then dict_set payload3 ''user_properties'' (json_of_user_properties up)
                else payload3)
     in dict_set payload4 ''events''
          (JList [JDict [(''name'', of_scalar (event_get event ''event_name'')),
                         (''params'',
                          JDict [(''engagement_time_msec'', of_scalar (event_get event ''engagement_time_msec'')),
                                 (''session_id'', of_scalar (event_get event ''session_id''))])]]))"

text \<open>\<open>_send_validate_request\<close>: one POST to the validation URL; a connection error becomes
  a connector error with the retriable code, and any other exception of the library
  passes through (\<open>except requests.ConnectionError\<close> catches that class only).\<close>

definition send_validate_request ::
  "(nat \<Rightarrow> http_outcome) \<Rightarrow> destination \<Rightarrow> (string \<times> json) list \<Rightarrow> world
     \<Rightarrow> (exn + int \<times> body) \<times> world" where
  "send_validate_request net self payload w =
    (let validating_payload = dict_set payload ''validationBehavior'' (JStr ''ENFORCE_RECOMMENDATIONS'')
     in case requests_post net (validate_url self) (JDict validating_payload) w of
          (ConnectionError, w') \<Rightarrow>
            (Inl (DataOutConnectorValueError NoMessage (Some (Member RETRIABLE_GA4_HOOK_ERROR_HTTP_ERROR))), w')
        | (OtherRequestError, w') \<Rightarrow> (Inl RequestException, w')
        | (Response st b, w') \<Rightarrow> (Inr (st, b), w'))"

text \<open>The \<open>for property_name in _ERROR_TYPES\<close> loop of \<open>_parse_validate_result\<close>:
  \<open>Inl\<close> is the exception that leaves the loop, \<open>Inr ()\<close> is the loop running to its end.\<close>

definition raise_error_type :: "string \<Rightarrow> exn" where
  "raise_error_type property_name =
    (case map_of ERROR_TYPES property_name of
       None \<Rightarrow> KeyError
     | Some c \<Rightarrow> DataOutConnectorValueError NoMessage (Some (Member c)))"

fun for_property_name :: "string list \<Rightarrow> json \<Rightarrow> json \<Rightarrow> exn + unit" where
  "for_property_name [] field_path description = Inr ()"
| "for_property_name (property_name # rest) field_path description =
    (if py_eq_str field_path property_name then Inl (raise_error_type property_name)
     else case py_in property_name description of
            Inl e \<Rightarrow> Inl e
          | Inr True \<Rightarrow> Inl (raise_error_type property_name)
          | Inr False \<Rightarrow> for_property_name rest field_path description)"

text \<open>\<open>_parse_validate_result\<close>; the event argument is unused, as in the source.\<close>

definition parse_validate_result ::
  "(string \<rightharpoonup> scalar) \<Rightarrow> int \<times> body \<Rightarrow> world \<Rightarrow> (exn + unit) \<times> world" where
  "parse_validate_result event response w =
    (case response of (status_code, b) \<Rightarrow>
     if status_code \<ge> 500
       then (Inl (DataOutConnectorValueError NoMessage (Some (Member RETRIABLE_GA4_HOOK_ERROR_HTTP_ERROR))), w)
     else if status_code \<noteq> 200
       then (Inl (DataOutConnectorValueError NoMessage (Some (Member NON_RETRIABLE_ERROR_EVENT_NOT_SENT))), w)
     else
       (case b of
          NotJson \<Rightarrow>
            (Inl (DataOutConnectorValueError NoMessage (Some (ValueOf RETRIABLE_GA4_HOOK_ERROR_HTTP_ERROR))), w)
        | Json validation_result \<Rightarrow>
            (case py_getitem validation_result ''validationMessages'' of
               Inl e \<Rightarrow> (Inl e, w)
             | Inr msgs \<Rightarrow>
                 if \<not> py_truthy msgs then (Inr (), w)
                 else
                   (case py_getitem0 msgs of
                      Inl e \<Rightarrow> (Inl e, w)
                    | Inr msg \<Rightarrow>
                        (case py_get msg ''fieldPath'' of
                           Inl e \<Rightarrow> (Inl e, w)
                         | Inr field_path \<Rightarrow>
                             (case py_get msg ''description'' of
                                Inl e \<Rightarrow> (Inl e, w)
                              | Inr description \<Rightarrow>
                                  (case for_property_name (map fst ERROR_TYPES) field_path description of
                                     Inl e \<Rightarrow> (Inl e, w)
                                   | Inr u \<Rightarrow>
                                       (Inl (DataOutConnectorValueError NoMessage
                                               (Some (Member GA4_HOOK_ERROR_INVALID_VALUES))),
                                        logging_error field_path description w))))))))"

text \<open>The body of the \<open>try\<close> in \<open>_get_valid_and_invalid_events\<close>: the validation request,
  then the parse of its response.\<close>

definition validate_step ::
  "(nat \<Rightarrow> http_outcome) \<Rightarrow> destination \<Rightarrow> (string \<rightharpoonup> scalar) \<Rightarrow> (string \<times> json) list
     \<Rightarrow> world \<Rightarrow> (exn + unit) \<times> world" where
  "validate_step net self event payload w =
    (case send_validate_request net self payload w of
       (Inl e, w') \<Rightarrow> (Inl e, w')
     | (Inr response, w') \<Rightarrow> parse_validate_result event response w')"

text \<open>
  The loop of \<open>_get_valid_and_invalid_events\<close> from index \<open>i\<close> on, with the two lists built
  so far. \<open>except errors.DataOutConnectorValueError\<close> catches that class only: any other
  exception leaves the function.
\<close>

type_synonym valid_events = "(nat \<times> (string \<times> json) list) list"
type_synonym invalid_events = "(nat \<times> error_num option) list"

fun events_loop ::
  "(nat \<Rightarrow> http_outcome) \<Rightarrow> destination \<Rightarrow> nat \<Rightarrow> (string \<rightharpoonup> scalar) list
     \<Rightarrow> valid_events \<Rightarrow> invalid_events \<Rightarrow> world
     \<Rightarrow> (exn + valid_events \<times> invalid_events) \<times> world" where
  "events_loop net self i [] valid_events invalid w = (Inr (valid_events, invalid), w)"
| "events_loop net self i (event # events) valid_events invalid w =
    (let payload = build_payload self event
     in case validate_step net self event payload w of
          (Inr u, w') \<Rightarrow>
            events_loop net self (Suc i) events (valid_events @ [(i, payload)]) invalid w'
        | (Inl (DataOutConnectorValueError m error_num), w') \<Rightarrow>
            events_loop net self (Suc i) events valid_events (invalid @ [(i, error_num)]) w'
        | (Inl e, w') \<Rightarrow> (Inl e, w'))"

definition get_valid_and_invalid_events ::
  "(nat \<Rightarrow> http_outcome) \<Rightarrow> destination \<Rightarrow> (string \<rightharpoonup> scalar) list \<Rightarrow> world
     \<Rightarrow> (exn + valid_events \<times> invalid_events) \<times> world" where
  "get_valid_and_invalid_events net self events w = events_loop net self 0 events [] [] w"

text \<open>
  \<open>_send_payload\<close>. In debug mode the source calls \<open>self.log.info\<close>; the class has no base
  class and nothing assigns a \<open>log\<close> attribute, so evaluating \<open>self.log\<close> raises
  \<open>AttributeError\<close> before anything is logged or sent. Outside debug mode, an exception
  of the library that is no connection error passes through.
\<close>

definition send_payload ::
  "(nat \<Rightarrow> http_outcome) \<Rightarrow> destination \<Rightarrow> (string \<times> json) list \<Rightarrow> world
     \<Rightarrow> (exn + unit) \<times> world" where
  "send_payload net self payload w =
    (if debug self then (Inl AttributeError, w)
     else case requests_post net (post_url self) (JDict payload) w of
            (ConnectionError, w') \<Rightarrow>
              (Inl (DataOutConnectorSendUnsuccessfulError SendDidNotComplete
                      (Some (Member RETRIABLE_GA_HOOK_ERROR_HTTP_ERROR))), w')
          | (OtherRequestError, w') \<Rightarrow> (Inl RequestException, w')
          | (Response status_code b, w') \<Rightarrow>
              if status_code < 200 \<or> status_code \<ge> 300
                then (Inl (DataOutConnectorSendUnsuccessfulError SendDidNotComplete
                             (Some (Member RETRIABLE_GA_HOOK_ERROR_HTTP_ERROR))), w')
              else (Inr (), w'))"

text \<open>\<open>RunResult\<close> of \<open>utils.py\<close>. An entry of \<open>error_messages\<close> stands for the string
  \<open>str(error_num)\<close> of the error number it holds.\<close>

record RunResult =
  successful_hits :: int
  failed_hits :: int
  error_messages :: "error_num option list"
  dry_run :: bool

text \<open>The \<open>for valid_event in valid_events\<close> loop of \<open>send_data\<close>; it appends to the list
  of invalid events and catches the two connector errors only.\<close>

fun send_loop ::
  "(nat \<Rightarrow> http_outcome) \<Rightarrow> destination \<Rightarrow> valid_events \<Rightarrow> invalid_events \<Rightarrow> world
     \<Rightarrow> (exn + invalid_events) \<times> world" where
  "send_loop net self [] invalid w = (Inr invalid, w)"
| "send_loop net self (valid_event # rest) invalid w =
    (case send_payload net self (snd valid_event) w of
       (Inr u, w') \<Rightarrow> send_loop net self rest invalid w'
     | (Inl (DataOutConnectorSendUnsuccessfulError m error_num), w') \<Rightarrow>
         send_loop net self rest (invalid @ [(fst valid_event, error_num)]) w'
     | (Inl (DataOutConnectorValueError m error_num), w') \<Rightarrow>
         send_loop net self rest (invalid @ [(fst valid_event, error_num)]) w'
     | (Inl e, w') \<Rightarrow> (Inl e, w'))"

definition send_data ::
  "(nat \<Rightarrow> http_outcome) \<Rightarrow> destination \<Rightarrow> (string \<rightharpoonup> scalar) list \<Rightarrow> bool \<Rightarrow> world
     \<Rightarrow> (exn + RunResult) \<times> world" where
  "send_data net self input_data dry w =
    (case get_valid_and_invalid_events net self input_data w of
       (Inl e, w1) \<Rightarrow> (Inl e, w1)
     | (Inr (valid_events, invalid0), w1) \<Rightarrow>
         (case (if \<not> dry then send_loop net self valid_events invalid0 w1 else (Inr invalid0, w1)) of
            (Inl e, w2) \<Rightarrow> (Inl e, w2)
          | (Inr invalid_indices_and_errors, w2) \<Rightarrow>
              (Inr \<lparr>successful_hits = int (length valid_events),
                    failed_hits = int (length invalid_indices_and_errors),
                    error_messages = map snd invalid_indices_and_errors,
                    dry_run = dry\<rparr>, w2)))"

section \<open>The specification's functions\<close>

text \<open>
  DiagnosticClassifier as the specification words it: the code of the first entry of the
  ordered table whose canonical field name equals the field path or occurs as a substring
  of the description, and the generic invalid-values code when no entry matches.
\<close>

definition table_match :: "string \<Rightarrow> string \<Rightarrow> string \<times> ErrorNameIDMap \<Rightarrow> bool" where
  "table_match field_path description entry =
     (field_path = fst entry \<or> sublist (fst entry) description)"

definition DiagnosticClassifier_spec :: "string \<Rightarrow> string \<Rightarrow> ErrorNameIDMap" where
  "DiagnosticClassifier_spec field_path description =
    (case find (table_match field_path description) ERROR_TYPES of
       None \<Rightarrow> GA4_HOOK_ERROR_INVALID_VALUES
     | Some entry \<Rightarrow> snd entry)"

text \<open>
  ValidationOutcome of the specification: valid, or invalid with an error code.
\<close>

datatype ValidationOutcome = Valid | Invalid ErrorNameIDMap

text \<open>
  The sandbox's response body, read as the interface describes it: the list under
  \<open>validationMessages\<close>, and a text field of one diagnostic (empty when absent).
\<close>

definition validation_messages :: "json \<Rightarrow> json list" where
  "validation_messages js =
    (case js of
       JDict d \<Rightarrow> (case map_of d ''validationMessages'' of Some (JList l) \<Rightarrow> l | other \<Rightarrow> [])
     | other \<Rightarrow> [])"

definition diagnostic_text :: "json \<Rightarrow> string \<Rightarrow> string" where
  "diagnostic_text m k =
    (case m of
       JDict d \<Rightarrow> (case map_of d k of Some (JStr s) \<Rightarrow> s | other \<Rightarrow> '''')
     | other \<Rightarrow> '''')"

text \<open>
  Validator as the specification words it, case by case, on the outcome of the sandbox
  request; of a non-empty list of diagnostics it reads the first one only. The
  specification has one case for every transport or connection failure.
\<close>

fun Validator_spec :: "http_outcome \<Rightarrow> ValidationOutcome" where
  "Validator_spec ConnectionError = Invalid RETRIABLE_GA4_HOOK_ERROR_HTTP_ERROR"
| "Validator_spec OtherRequestError = Invalid RETRIABLE_GA4_HOOK_ERROR_HTTP_ERROR"
| "Validator_spec (Response status_code b) =
    (if status_code \<ge> 500 then Invalid RETRIABLE_GA4_HOOK_ERROR_HTTP_ERROR
     else if status_code \<noteq> 200 then Invalid NON_RETRIABLE_ERROR_EVENT_NOT_SENT
     else case b of
            NotJson \<Rightarrow> Invalid RETRIABLE_GA4_HOOK_ERROR_HTTP_ERROR
          | Json js \<Rightarrow>
              (case validation_messages js of
                 [] \<Rightarrow> Valid
               | m # rest \<Rightarrow>
                   Invalid (DiagnosticClassifier_spec (diagnostic_text m ''fieldPath'')
                              (diagnostic_text m ''description''))))"

text \<open>
  A well-formed sandbox outcome: a connection failure, a response with a status other
  than 200, or a 200 response whose body is not JSON or is a JSON object with a
  \<open>validationMessages\<close> list that is empty or starts with a diagnostic object whose
  \<open>fieldPath\<close> and \<open>description\<close>, when present, are strings. An exception of the
  library that is no connection error is not among them.
\<close>

definition is_text :: "(string \<times> json) list \<Rightarrow> string \<Rightarrow> bool" where
  "is_text d k = (case map_of d k of None \<Rightarrow> True | Some (JStr s) \<Rightarrow> True | Some other \<Rightarrow> False)"

fun wf_message :: "json \<Rightarrow> bool" where
  "wf_message (JDict d) = (is_text d ''fieldPath'' \<and> is_text d ''description'')"
| "wf_message other = False"

fun wf_body :: "body \<Rightarrow> bool" where
  "wf_body NotJson = True"
| "wf_body (Json (JDict d)) =
    (case map_of d ''validationMessages'' of
       Some (JList []) \<Rightarrow> True
     | Some (JList (m # rest)) \<Rightarrow> wf_message m
     | other \<Rightarrow> False)"
| "wf_body (Json other) = False"

fun well_formed :: "http_outcome \<Rightarrow> bool" where
  "well_formed ConnectionError = True"
| "well_formed OtherRequestError = False"
| "well_formed (Response status_code b) = (if status_code = 200 then wf_body b else True)"

text \<open>
  The exception that the specification fixes for a validation outcome: none for a valid
  event, and a \<open>DataOutConnectorValueError\<close> whose \<open>error_num\<close> is the member of the
  outcome's code for an invalid one.
\<close>

fun raise_outcome :: "ValidationOutcome \<Rightarrow> exn + unit" where
  "raise_outcome Valid = Inr ()"
| "raise_outcome (Invalid c) = Inl (DataOutConnectorValueError NoMessage (Some (Member c)))"

text \<open>
  The \<open>error_num\<close> with which the code ends the validation of a well-formed outcome
  (\<open>None\<close> when the event is valid): the member of the specification's code, except for a
  200 response whose body is not JSON, where the source writes \<open>.value\<close> and the exception
  carries the member's number.
\<close>

fun not_json_200 :: "http_outcome \<Rightarrow> bool" where
  "not_json_200 (Response status_code NotJson) = (status_code = 200)"
| "not_json_200 other = False"

definition validation_error_num :: "http_outcome \<Rightarrow> error_num option" where
  "validation_error_num out =
    (case Validator_spec out of
       Valid \<Rightarrow> None
     | Invalid c \<Rightarrow> Some (if not_json_200 out then ValueOf c else Member c))"

text \<open>
  Reading the specification's Validator over a batch: the outcomes of the sandbox
  requests of \<open>n\<close> events validated from world \<open>w\<close> on, and whether the sandbox accepts.
\<close>

definition accepts :: "http_outcome \<Rightarrow> bool" where
  "accepts out = (Validator_spec out = Valid)"

definition sandbox_outcomes :: "(nat \<Rightarrow> http_outcome) \<Rightarrow> world \<Rightarrow> nat \<Rightarrow> http_outcome list" where
  "sandbox_outcomes net w n = map (\<lambda>j. net (length (posts w) + j)) [0..<n]"

text \<open>
  Sender as the specification words it for a production request: success is a status in
  \<open>[200, 300)\<close>; any other status and a transport or connection error are send
  failures. The code catches a production request that ends in a response or in a
  connection error.
\<close>

fun send_fails :: "http_outcome \<Rightarrow> bool" where
  "send_fails ConnectionError = True"
| "send_fails OtherRequestError = True"
| "send_fails (Response status_code b) = (\<not> (200 \<le> status_code \<and> status_code < 300))"

fun response_or_connection_error :: "http_outcome \<Rightarrow> bool" where
  "response_or_connection_error OtherRequestError = False"
| "response_or_connection_error other = True"

text \<open>The outcomes of the production requests of \<open>v\<close> sends that follow the validation of
  \<open>n\<close> events from world \<open>w\<close> on.\<close>

definition production_outcomes ::
  "(nat \<Rightarrow> http_outcome) \<Rightarrow> world \<Rightarrow> nat \<Rightarrow> nat \<Rightarrow> http_outcome list" where
  "production_outcomes net w n v = map (\<lambda>j. net (length (posts w) + n + j)) [0..<v]"

section \<open>The Airflow client\<close>

text \<open>
  The endpoints the client builds URLs for (the base URL is fixed), and the requests it
  issues. A path component that comes out of a JSON response is kept as the JSON value.
\<close>

datatype endpoint =
    DagRunsList
  | DagRuns string string
  | XcomEntries json json json string






































section \<open>Example inputs\<close>

text \<open>A web (gtag) configuration, the destination built from it, and three events.\<close>

definition gtag_config :: config where
  "gtag_config =
    \<lparr>cfg_payload_type = Some ''gtag'', cfg_api_secret = Some ''s3cret'',
     cfg_firebase_app_id = None, cfg_measurement_id = Some ''G-1'',
     cfg_non_personalized_ads = None, cfg_user_properties = None, cfg_debug = None\<rparr>"

definition gtag_destination :: destination where
  "gtag_destination =
    \<lparr>payload_type = Some ''gtag'', api_secret = Some ''s3cret'', firebase_app_id = None,
     measurement_id = Some ''G-1'', non_personalized_ads = False, user_properties = None,
     debug = False,
     post_url = ''https://www.google-analytics.com/mp/collect?api_secret=s3cret&measurement_id=G-1'',
     validate_url = ''https://www.google-analytics.com/debug/mp/collect?api_secret=s3cret&measurement_id=G-1''\<rparr>"

definition event_a :: "string \<rightharpoonup> scalar" where
  "event_a = [''client_id'' \<mapsto> SInt 17, ''user_id'' \<mapsto> SStr ''u1'', ''event_name'' \<mapsto> SStr ''purchase'']"

definition event_b :: "string \<rightharpoonup> scalar" where
  "event_b = [''user_id'' \<mapsto> SStr ''u2'', ''event_name'' \<mapsto> SStr ''purchase'']"

definition event_c :: "string \<rightharpoonup> scalar" where
  "event_c = [''client_id'' \<mapsto> SStr ''c3'', ''user_id'' \<mapsto> SStr ''u3'', ''event_name'' \<mapsto> SStr ''login'']"

text \<open>Sandbox bodies: no diagnostic, and two diagnostics of which the first names the
  client identifier.\<close>

definition body_ok :: body where
  "body_ok = Json (JDict [(''validationMessages'', JList [])])"

definition body_client_id :: body where
  "body_client_id =
    Json (JDict [(''validationMessages'',
      JList [JDict [(''fieldPath'', JStr ''client_id''), (''description'', JStr ''required''),
                    (''validationCode'', JStr ''VALUE_REQUIRED'')],
             JDict [(''fieldPath'', JStr ''user_id''), (''description'', JStr ''too long'')]])])"

text \<open>A network given by the list of its first outcomes; every later request gets a
  connection error.\<close>

definition net_of :: "http_outcome list \<Rightarrow> nat \<Rightarrow> http_outcome" where
  "net_of outs n = (if n < length outs then outs ! n else ConnectionError)"

section \<open>More example inputs\<close>

text \<open>The exception with which \<open>_send_payload\<close> reports a failed send.\<close>

definition send_error :: exn where
  "send_error = DataOutConnectorSendUnsuccessfulError SendDidNotComplete
                  (Some (Member RETRIABLE_GA_HOOK_ERROR_HTTP_ERROR))"

text \<open>A network for a batch of three events: the sandbox accepts the first and the third
  and rejects the second; the first production send succeeds and the second gets a 503.\<close>

definition net_abc :: "nat \<Rightarrow> http_outcome" where
  "net_abc = net_of [Response 200 body_ok, Response 200 body_client_id, Response 200 body_ok,
                     Response 204 NotJson, Response 503 NotJson]"

text \<open>The same configuration with debug mode on, and the destination built from it.\<close>

definition debug_config :: config where
  "debug_config = gtag_config\<lparr>cfg_debug := Some True\<rparr>"

definition debug_destination :: destination where
  "debug_destination = gtag_destination\<lparr>debug := True\<rparr>"

section \<open>The specification's poller\<close>










section \<open>The specification's aggregator\<close>



fun collect :: "(exn + 'a) list \<Rightarrow> exn + 'a list" where
  "collect [] = Inr []"
| "collect (r # rs) =
    (case r of
       Inl e \<Rightarrow> Inl e
     | Inr x \<Rightarrow> (case collect rs of Inl e \<Rightarrow> Inl e | Inr xs \<Rightarrow> Inr (x # xs)))"





section \<open>Verified properties\<close>

subsection \<open>The diagnostic classifier\<close>

lemma for_property_name_table:
  "for_property_name (map fst ERROR_TYPES) (JStr field_path) (JStr description) =
    (case find (table_match field_path description) ERROR_TYPES of
       None \<Rightarrow> Inr ()
     | Some entry \<Rightarrow> Inl (DataOutConnectorValueError NoMessage (Some (Member (snd entry)))))"
  by (simp add: ERROR_TYPES_def raise_error_type_def table_match_def)

text \<open>
  Claim C5. Diagnostic classification is deterministic and total. For every field path
  and description that are strings, parsing a validation response whose first diagnostic
  carries them raises exactly one \<open>DataOutConnectorValueError\<close>, and its code is the
  function \<open>DiagnosticClassifier_spec\<close> of the two strings: the code of the first table
  entry whose name equals the field path or occurs in the description, and the generic
  invalid-values code when no entry matches. Exactly in the second case the diagnostic is
  logged first. Further diagnostics in the list play no part.
\<close>

theorem DiagnosticClassifier_total:
  "parse_validate_result event
     (200, Json (JDict [(''validationMessages'',
        JList (JDict [(''fieldPath'', JStr field_path), (''description'', JStr description)] # rest))])) w =
   (Inl (DataOutConnectorValueError NoMessage
           (Some (Member (DiagnosticClassifier_spec field_path description)))),
    if find (table_match field_path description) ERROR_TYPES = None
    then logging_error (JStr field_path) (JStr description) w else w)"
  by (simp add: parse_validate_result_def for_property_name_table DiagnosticClassifier_spec_def
        split: option.splits)

theorem DiagnosticClassifier_total_witness:
  "parse_validate_result Map.empty
     (200, Json (JDict [(''validationMessages'',
        JList [JDict [(''fieldPath'', JStr ''events.params''),
                      (''description'', JStr ''events.params is bad'')]])])) world0 =
   (Inl (DataOutConnectorValueError NoMessage (Some (Member GA4_HOOK_ERROR_VALUE_INVALID_EVENTS))), world0)
   \<and> parse_validate_result Map.empty
     (200, Json (JDict [(''validationMessages'',
        JList [JDict [(''fieldPath'', JStr ''new_field''),
                      (''description'', JStr ''unknown'')]])])) world0 =
   (Inl (DataOutConnectorValueError NoMessage (Some (Member GA4_HOOK_ERROR_INVALID_VALUES))),
    \<lparr>posts = [], errlog = [(JStr ''new_field'', JStr ''unknown'')]\<rparr>)"
  using DiagnosticClassifier_total [of Map.empty "''events.params''" "''events.params is bad''" "[]" world0]
    DiagnosticClassifier_total [of Map.empty "''new_field''" "''unknown''" "[]" world0]
  by (simp add: DiagnosticClassifier_spec_def ERROR_TYPES_def table_match_def sublist_code
        world0_def logging_error_def)

subsection \<open>The validator\<close>

lemma py_get_is_text:
  "is_text d k \<Longrightarrow> py_get (JDict d) k = Inr (JStr (diagnostic_text (JDict d) k))"
  by (auto simp: is_text_def diagnostic_text_def split: option.splits json.splits)

lemma not_json_200_Response:
  "not_json_200 (Response st b) = (st = 200 \<and> b = NotJson)"
  by (cases b) simp_all

lemma parse_validate_result_well_formed:
  assumes "well_formed (Response st b)"
  shows "fst (parse_validate_result event (st, b) w) =
           (case validation_error_num (Response st b) of
              None \<Rightarrow> Inr ()
            | Some n \<Rightarrow> Inl (DataOutConnectorValueError NoMessage (Some n)))"
proof (cases "st = 200")
  case False
  then show ?thesis
    by (simp add: parse_validate_result_def validation_error_num_def not_json_200_Response)
next
  case True
  show ?thesis
  proof (cases b)
    case NotJson
    with True show ?thesis by (simp add: parse_validate_result_def validation_error_num_def)
  next
    case (Json js)
    with True assms obtain d where js: "js = JDict d"
      by (cases js) auto
    show ?thesis
    proof (cases "map_of d ''validationMessages''")
      case None
      with True Json js assms show ?thesis by simp
    next
      case (Some ms)
      with True Json js assms obtain l where ms: "ms = JList l"
        by (cases ms) auto
      show ?thesis
      proof (cases l)
        case Nil
        with True Json js Some ms show ?thesis
          by (simp add: parse_validate_result_def validation_messages_def validation_error_num_def)
      next
        case (Cons m rest)
        with True Json js Some ms assms obtain md where md: "m = JDict md"
          and fp: "is_text md ''fieldPath''" and de: "is_text md ''description''"
          by (cases m) auto
        show ?thesis
          using True Json js Some ms Cons md py_get_is_text[OF fp] py_get_is_text[OF de]
          by (simp add: parse_validate_result_def for_property_name_table DiagnosticClassifier_spec_def
                validation_messages_def validation_error_num_def
                del: py_get.simps split: option.splits)
      qed
    qed
  qed
qed

lemma parse_validate_result_posts: "posts (snd (parse_validate_result event r w)) = posts w"
  by (cases r) (auto simp: parse_validate_result_def logging_error_def
        split: body.splits sum.splits)

lemma validate_step_posts:
  "posts (snd (validate_step net self event payload w)) =
     posts w @ [(validate_url self,
                 JDict (dict_set payload ''validationBehavior'' (JStr ''ENFORCE_RECOMMENDATIONS'')))]"
  by (cases "net (length (posts w))")
     (simp_all add: validate_step_def send_validate_request_def requests_post_def
        parse_validate_result_posts Let_def)

lemma validate_step_well_formed:
  assumes "well_formed (net (length (posts w)))"
  shows "fst (validate_step net self event payload w) =
           (case validation_error_num (net (length (posts w))) of
              None \<Rightarrow> Inr ()
            | Some n \<Rightarrow> Inl (DataOutConnectorValueError NoMessage (Some n)))"
proof (cases "net (length (posts w))")
  case ConnectionError
  then show ?thesis
    by (simp add: validate_step_def send_validate_request_def requests_post_def Let_def
          validation_error_num_def)
next
  case OtherRequestError
  with assms show ?thesis by simp
next
  case (Response st b)
  with assms have "well_formed (Response st b)" by simp
  from parse_validate_result_well_formed[OF this] Response show ?thesis
    by (simp add: validate_step_def send_validate_request_def requests_post_def Let_def)
qed

text \<open>
  Save for a 200 response whose body is not JSON, the validation of a well-formed outcome
  ends with exactly the exception that the specification fixes for it.
\<close>

lemma validate_step_exact:
  assumes "well_formed (net (length (posts w)))" and "\<not> not_json_200 (net (length (posts w)))"
  shows "fst (validate_step net self event payload w) =
           raise_outcome (Validator_spec (net (length (posts w))))"
  using validate_step_well_formed[where net=net and w=w, OF assms(1), of self event payload] assms(2)
  by (cases "Validator_spec (net (length (posts w)))") (simp_all add: validation_error_num_def)

text \<open>
  Claim C4 says that a 200 response whose body is not parseable JSON raises the
  retriable code, as a connection failure and a status of 500 or more do. The code
  raises a \<open>DataOutConnectorValueError\<close> there whose \<open>error_num\<close> is the number of that
  member (\<open>.value\<close>), not the member that the other two cases raise and that the
  specification fixes; the list of invalid events and the error messages of the run then
  hold that number.
\<close>

theorem not_json_raises_value:
  "fst (validate_step (net_of [Response 200 NotJson]) gtag_destination event_a
          (build_payload gtag_destination event_a) world0) =
     Inl (DataOutConnectorValueError NoMessage (Some (ValueOf RETRIABLE_GA4_HOOK_ERROR_HTTP_ERROR)))
   \<and> raise_outcome (Validator_spec (Response 200 NotJson)) =
     Inl (DataOutConnectorValueError NoMessage (Some (Member RETRIABLE_GA4_HOOK_ERROR_HTTP_ERROR)))
   \<and> fst (validate_step (net_of [Response 500 NotJson]) gtag_destination event_a
          (build_payload gtag_destination event_a) world0) =
     Inl (DataOutConnectorValueError NoMessage (Some (Member RETRIABLE_GA4_HOOK_ERROR_HTTP_ERROR)))
   \<and> fst (send_data (net_of [Response 200 NotJson]) gtag_destination [event_a] True world0) =
     Inr \<lparr>successful_hits = 0, failed_hits = 1,
          error_messages = [Some (ValueOf RETRIABLE_GA4_HOOK_ERROR_HTTP_ERROR)],
          dry_run = True\<rparr>"
  by (simp add: send_data_def get_valid_and_invalid_events_def validate_step_def
        send_validate_request_def requests_post_def parse_validate_result_def net_of_def
        world0_def gtag_destination_def Let_def)

subsection \<open>The validation stage\<close>

lemma events_loop_well_formed:
  assumes "\<forall>m. i \<le> m \<and> m < i + length events \<longrightarrow> well_formed (net (off + m))"
    and "length (posts w) = off + i"
  shows "\<exists>V' I' w'. events_loop net self i events V I w = (Inr (V', I'), w')
          \<and> map fst V' = map fst V @ filter (\<lambda>m. accepts (net (off + m))) [i..<i + length events]
          \<and> I' = I @ map (\<lambda>m. (m, validation_error_num (net (off + m))))
                  (filter (\<lambda>m. \<not> accepts (net (off + m))) [i..<i + length events])
          \<and> length (posts w') = off + i + length events"
  using assms
proof (induction events arbitrary: i V I w)
  case Nil
  then show ?case by simp
next
  case (Cons event events)
  let ?p = "build_payload self event"
  obtain r w1 where step: "validate_step net self event ?p w = (r, w1)"
    by (cases "validate_step net self event ?p w")
  have wf: "well_formed (net (length (posts w)))"
    using Cons.prems by simp
  have cl: "r = (case validation_error_num (net (off + i)) of
              None \<Rightarrow> Inr ()
            | Some n \<Rightarrow> Inl (DataOutConnectorValueError NoMessage (Some n)))"
    using validate_step_well_formed[where net=net and w=w, OF wf, of self event ?p] step Cons.prems(2)
    by simp
  have len1: "length (posts w1) = off + Suc i"
    using validate_step_posts[of net self event ?p w] step Cons.prems(2) by simp
  have wf': "\<forall>m. Suc i \<le> m \<and> m < Suc i + length events \<longrightarrow> well_formed (net (off + m))"
    using Cons.prems(1) by simp
  have "i < i + length (event # events)" by simp
  then have "[i..<i + length (event # events)] = i # [Suc i..<i + length (event # events)]"
    by (rule upt_conv_Cons)
  then have upt: "[i..<i + length (event # events)] = i # [Suc i..<Suc i + length events]"
    by simp
  show ?case
  proof (cases "accepts (net (off + i))")
    case True
    with cl have r: "r = Inr ()" by (simp add: accepts_def validation_error_num_def)
    from Cons.IH[OF wf' len1, of "V @ [(i, ?p)]" I] True step r upt
    show ?thesis by auto
  next
    case False
    then obtain c where c: "Validator_spec (net (off + i)) = Invalid c"
      by (cases "Validator_spec (net (off + i))") (auto simp: accepts_def)
    then obtain n where n: "validation_error_num (net (off + i)) = Some n"
      by (simp add: validation_error_num_def)
    with cl have r: "r = Inl (DataOutConnectorValueError NoMessage (Some n))"
      by simp
    from Cons.IH[OF wf' len1, of V "I @ [(i, Some n)]"] False step r upt n
    show ?thesis by auto
  qed
qed

lemma sandbox_outcomes_all:
  "list_all P (sandbox_outcomes net w n) = (\<forall>m<n. P (net (length (posts w) + m)))"
  by (auto simp: sandbox_outcomes_def list_all_iff)

lemma filter_sandbox_outcomes:
  "length (filter P (sandbox_outcomes net w n)) =
     length (filter (\<lambda>m. P (net (length (posts w) + m))) [0..<n])"
  by (simp add: sandbox_outcomes_def filter_map comp_def)

lemma get_valid_and_invalid_events_well_formed:
  assumes "list_all well_formed (sandbox_outcomes net w (length events))"
  shows "\<exists>valid invalid w'.
          get_valid_and_invalid_events net self events w = (Inr (valid, invalid), w')
          \<and> map fst valid = filter (\<lambda>m. accepts (net (length (posts w) + m))) [0..<length events]
          \<and> invalid = map (\<lambda>m. (m, validation_error_num (net (length (posts w) + m))))
                  (filter (\<lambda>m. \<not> accepts (net (length (posts w) + m))) [0..<length events])
          \<and> length (posts w') = length (posts w) + length events"
proof -
  have "\<forall>m. 0 \<le> m \<and> m < 0 + length events \<longrightarrow> well_formed (net (length (posts w) + m))"
    using assms by (simp add: sandbox_outcomes_all)
  from events_loop_well_formed[OF this, of w self "[]" "[]"] show ?thesis
    by (simp add: get_valid_and_invalid_events_def)
qed



subsection \<open>The send stage\<close>

lemma send_payload_live:
  assumes "\<not> debug self" and "response_or_connection_error (net (length (posts w)))"
  shows "send_payload net self payload w =
     ((if send_fails (net (length (posts w))) then Inl send_error else Inr ()),
      w\<lparr>posts := posts w @ [(post_url self, JDict payload)]\<rparr>)"
  using assms
  by (cases "net (length (posts w))")
     (auto simp: send_payload_def requests_post_def send_error_def)

lemma send_loop_live:
  assumes "\<not> debug self"
    and "list_all response_or_connection_error (map net [length (posts w)..<length (posts w) + length V])"
  shows "\<exists>I' w'. send_loop net self V I w = (Inr I', w')
     \<and> I' = I @ map (\<lambda>p. (fst (fst p), Some (Member RETRIABLE_GA_HOOK_ERROR_HTTP_ERROR)))
                (filter (\<lambda>p. send_fails (snd p))
                   (zip V (map net [length (posts w)..<length (posts w) + length V])))
     \<and> posts w' = posts w @ map (\<lambda>v. (post_url self, JDict (snd v))) V"
  using assms(2)
proof (induction V arbitrary: I w)
  case Nil
  show ?case by simp
next
  case (Cons v V)
  let ?k = "length (posts w)"
  let ?w1 = "w\<lparr>posts := posts w @ [(post_url self, JDict (snd v))]\<rparr>"
  have "?k < ?k + length (v # V)" by simp
  then have "[?k..<?k + length (v # V)] = ?k # [Suc ?k..<?k + length (v # V)]"
    by (rule upt_conv_Cons)
  then have upt: "[?k..<?k + length (v # V)] = ?k # [length (posts ?w1)..<length (posts ?w1) + length V]"
    by simp
  from Cons.prems have ok: "response_or_connection_error (net ?k)"
    and rest: "list_all response_or_connection_error
                 (map net [length (posts ?w1)..<length (posts ?w1) + length V])"
    unfolding upt by simp_all
  show ?case
  proof (cases "send_fails (net ?k)")
    case True
    from Cons.IH[OF rest, of "I @ [(fst v, Some (Member RETRIABLE_GA_HOOK_ERROR_HTTP_ERROR))]"]
    show ?thesis
      unfolding upt using True
      by (simp add: send_payload_live[where net=net and w=w, OF assms(1) ok] send_error_def)
  next
    case False
    from Cons.IH[OF rest, of I]
    show ?thesis
      unfolding upt using False
      by (simp add: send_payload_live[where net=net and w=w, OF assms(1) ok])
  qed
qed



lemma production_outcomes_upt:
  "production_outcomes net w n v = map net [length (posts w) + n..<length (posts w) + n + v]"
proof -
  have "[length (posts w) + n..<length (posts w) + n + v] = map (\<lambda>j. j + (length (posts w) + n)) [0..<v]"
    by (simp add: map_add_upt add.commute)
  then show ?thesis
    by (simp add: production_outcomes_def comp_def add.commute)
qed

lemma length_filter_zip_snd:
  assumes "length xs = length ys"
  shows "length (filter (\<lambda>p. P (snd p)) (zip xs ys)) = length (filter P ys)"
  using assms by (induction xs ys rule: list_induct2) auto

lemma length_valid_accepts:
  assumes "map fst valid = filter (\<lambda>m. accepts (net (length (posts w) + m))) [0..<n]"
  shows "length valid = length (filter accepts (sandbox_outcomes net w n))"
proof -
  have "length valid = length (map fst valid)" by simp
  also have "\<dots> = length (filter accepts (sandbox_outcomes net w n))"
    unfolding assms by (simp add: filter_sandbox_outcomes)
  finally show ?thesis .
qed

lemma send_data_well_formed:
  assumes wf: "list_all well_formed (sandbox_outcomes net w (length events))"
    and live: "dry \<or> (\<not> debug self
                \<and> list_all response_or_connection_error
                     (production_outcomes net w (length events)
                        (length (filter accepts (sandbox_outcomes net w (length events))))))"
  obtains valid :: valid_events and sent w' where
      "send_data net self events dry w =
        (Inr \<lparr>successful_hits = int (length valid),
              failed_hits = int (length
                (map (\<lambda>m. (m, validation_error_num (net (length (posts w) + m))))
                   (filter (\<lambda>m. \<not> accepts (net (length (posts w) + m))) [0..<length events])
                 @ sent)),
              error_messages = map snd
                (map (\<lambda>m. (m, validation_error_num (net (length (posts w) + m))))
                   (filter (\<lambda>m. \<not> accepts (net (length (posts w) + m))) [0..<length events])
                 @ sent),
              dry_run = dry\<rparr>, w')"
      "map fst valid = filter (\<lambda>m. accepts (net (length (posts w) + m))) [0..<length events]"
      "sent = (if dry then []
                 else map (\<lambda>p. (fst (fst p), Some (Member RETRIABLE_GA_HOOK_ERROR_HTTP_ERROR)))
                        (filter (\<lambda>p. send_fails (snd p))
                           (zip valid (production_outcomes net w (length events) (length valid)))))"
proof -
  from get_valid_and_invalid_events_well_formed[OF wf, of self]
  obtain valid invalid w1 where
    res: "get_valid_and_invalid_events net self events w = (Inr (valid, invalid), w1)"
    and v: "map fst valid = filter (\<lambda>m. accepts (net (length (posts w) + m))) [0..<length events]"
    and i: "invalid = map (\<lambda>m. (m, validation_error_num (net (length (posts w) + m))))
                  (filter (\<lambda>m. \<not> accepts (net (length (posts w) + m))) [0..<length events])"
    and p: "length (posts w1) = length (posts w) + length events"
    by blast
  have lv: "length valid = length (filter accepts (sandbox_outcomes net w (length events)))"
    using v by (rule length_valid_accepts)
  show thesis
  proof (cases dry)
    case True
    have sd: "send_data net self events dry w =
        (Inr \<lparr>successful_hits = int (length valid),
              failed_hits = int (length (invalid @ [])),
              error_messages = map snd (invalid @ []),
              dry_run = dry\<rparr>, w1)"
      using res True by (simp add: send_data_def)
    have e: "[] = (if dry then []
                 else map (\<lambda>p. (fst (fst p), Some (Member RETRIABLE_GA_HOOK_ERROR_HTTP_ERROR)))
                        (filter (\<lambda>p. send_fails (snd p))
                           (zip valid (production_outcomes net w (length events) (length valid)))))"
      using True by simp
    show thesis
      by (rule that[OF sd[unfolded i] v e])
  next
    case False
    with live have nd: "\<not> debug self"
      and pr: "list_all response_or_connection_error
                 (production_outcomes net w (length events) (length valid))"
      by (simp_all add: lv)
    have po: "map net [length (posts w1)..<length (posts w1) + length valid] =
                production_outcomes net w (length events) (length valid)"
      by (simp add: production_outcomes_upt p)
    from send_loop_live[OF nd, of net w1 valid invalid] pr obtain I' w' where
      sl: "send_loop net self valid invalid w1 = (Inr I', w')"
      and I': "I' = invalid @ map (\<lambda>p. (fst (fst p), Some (Member RETRIABLE_GA_HOOK_ERROR_HTTP_ERROR)))
                (filter (\<lambda>p. send_fails (snd p))
                   (zip valid (map net [length (posts w1)..<length (posts w1) + length valid])))"
      unfolding po by blast
    define sent where "sent = map (\<lambda>p. (fst (fst p), Some (Member RETRIABLE_GA_HOOK_ERROR_HTTP_ERROR)))
                (filter (\<lambda>p. send_fails (snd p))
                   (zip valid (production_outcomes net w (length events) (length valid))))"
    have sd: "send_data net self events dry w =
        (Inr \<lparr>successful_hits = int (length valid),
              failed_hits = int (length (invalid @ sent)),
              error_messages = map snd (invalid @ sent),
              dry_run = dry\<rparr>, w')"
      using res sl False unfolding I' po sent_def by (simp add: send_data_def)
    have e: "sent = (if dry then []
                 else map (\<lambda>p. (fst (fst p), Some (Member RETRIABLE_GA_HOOK_ERROR_HTTP_ERROR)))
                        (filter (\<lambda>p. send_fails (snd p))
                           (zip valid (production_outcomes net w (length events) (length valid)))))"
      using False by (simp add: sent_def)
    show thesis
      by (rule that[OF sd[unfolded i] v e])
  qed
qed

text \<open>
  Claim C2 says that \<open>send_data\<close> with \<open>dry_run = False\<close> returns the counts for every
  batch. A production request that ends in an exception of the library other than a
  connection error is not caught by \<open>_send_payload\<close> nor by \<open>send_data\<close>: for a well-formed
  sandbox outcome and debug mode off, \<open>send_data\<close> then raises and returns no run result.
\<close>

theorem send_data_request_exception_escapes:
  "list_all well_formed (sandbox_outcomes (net_of [Response 200 body_ok, OtherRequestError]) world0
      (length [event_a]))
   \<and> \<not> debug gtag_destination
   \<and> fst (send_data (net_of [Response 200 body_ok, OtherRequestError]) gtag_destination
          [event_a] False world0) = Inl RequestException"
  by (simp add: send_data_def get_valid_and_invalid_events_def validate_step_def
        send_validate_request_def requests_post_def parse_validate_result_def net_of_def
        world0_def body_ok_def send_payload_def Let_def gtag_destination_def sandbox_outcomes_def)

text \<open>
  Claim C2, amended. For every batch of \<open>N\<close> events sent with \<open>dry_run = False\<close> whose
  sandbox outcomes are well-formed and whose production requests each end in a response
  or a connection error, on a destination with debug mode off, \<open>send_data\<close> returns a run
  result whose \<open>successful_hits\<close> is the number of events the sandbox accepted, counting
  those whose production send failed afterwards, and whose \<open>failed_hits\<close> is the number of
  events the sandbox rejected plus the number of failed sends; hence the two add up to
  \<open>N\<close> plus the number of accepted events whose send failed.
\<close>

theorem send_data_counts:
  assumes wf: "list_all well_formed (sandbox_outcomes net w (length events))"
    and live: "\<not> debug self"
    and prod: "list_all response_or_connection_error
                 (production_outcomes net w (length events)
                    (length (filter accepts (sandbox_outcomes net w (length events)))))"
  shows "\<exists>r w'. send_data net self events False w = (Inr r, w')
     \<and> successful_hits r = int (length (filter accepts (sandbox_outcomes net w (length events))))
     \<and> failed_hits r =
         int (length (filter (\<lambda>out. \<not> accepts out) (sandbox_outcomes net w (length events))))
         + int (length (filter send_fails
                 (production_outcomes net w (length events) (nat (successful_hits r)))))
     \<and> successful_hits r + failed_hits r =
         int (length events)
         + int (length (filter send_fails
                 (production_outcomes net w (length events) (nat (successful_hits r)))))"
proof -
  from live prod have "False \<or> (\<not> debug self
                \<and> list_all response_or_connection_error
                     (production_outcomes net w (length events)
                        (length (filter accepts (sandbox_outcomes net w (length events))))))"
    by simp
  from wf this
  obtain valid :: valid_events and sent w' where
    sd: "send_data net self events False w =
        (Inr \<lparr>successful_hits = int (length valid),
              failed_hits = int (length
                (map (\<lambda>m. (m, validation_error_num (net (length (posts w) + m))))
                   (filter (\<lambda>m. \<not> accepts (net (length (posts w) + m))) [0..<length events])
                 @ sent)),
              error_messages = map snd
                (map (\<lambda>m. (m, validation_error_num (net (length (posts w) + m))))
                   (filter (\<lambda>m. \<not> accepts (net (length (posts w) + m))) [0..<length events])
                 @ sent),
              dry_run = False\<rparr>, w')"
    and v: "map fst valid = filter (\<lambda>m. accepts (net (length (posts w) + m))) [0..<length events]"
    and s: "sent = (if False then []
                 else map (\<lambda>p. (fst (fst p), Some (Member RETRIABLE_GA_HOOK_ERROR_HTTP_ERROR)))
                        (filter (\<lambda>p. send_fails (snd p))
                           (zip valid (production_outcomes net w (length events) (length valid)))))"
    by (rule send_data_well_formed)
  let ?S = "sandbox_outcomes net w (length events)"
  let ?P = "production_outcomes net w (length events) (length valid)"
  have lv: "length valid = length (filter accepts ?S)"
    using v by (rule length_valid_accepts)
  have li: "length (filter (\<lambda>m. \<not> accepts (net (length (posts w) + m))) [0..<length events]) =
              length (filter (\<lambda>out. \<not> accepts out) ?S)"
    by (simp add: filter_sandbox_outcomes)
  have "length valid = length ?P"
    by (simp add: production_outcomes_def)
  then have ls: "length sent = length (filter send_fails ?P)"
    using s by (simp add: length_filter_zip_snd)
  have tot: "length (filter accepts ?S) + length (filter (\<lambda>out. \<not> accepts out) ?S) = length events"
    using sum_length_filter_compl[of accepts ?S] by (simp add: sandbox_outcomes_def)
  show ?thesis
    using sd lv li ls tot by simp
qed

lemma net_abc_well_formed:
  "list_all well_formed (sandbox_outcomes net_abc world0 (length [event_a, event_b, event_c]))"
  by (simp add: sandbox_outcomes_def net_abc_def net_of_def world0_def body_ok_def body_client_id_def
        is_text_def upt_rec)

lemma net_abc_accepts:
  "filter accepts (sandbox_outcomes net_abc world0 (Suc (Suc (Suc 0)))) =
     [Response 200 body_ok, Response 200 body_ok]"
  by (simp add: sandbox_outcomes_def accepts_def net_abc_def net_of_def world0_def body_ok_def
        body_client_id_def validation_messages_def upt_rec)

lemma net_abc_rejects:
  "filter (\<lambda>out. \<not> accepts out) (sandbox_outcomes net_abc world0 (Suc (Suc (Suc 0)))) =
     [Response 200 body_client_id]"
  by (simp add: sandbox_outcomes_def accepts_def net_abc_def net_of_def world0_def body_ok_def
        body_client_id_def validation_messages_def upt_rec)

lemma net_abc_production:
  "production_outcomes net_abc world0 (Suc (Suc (Suc 0))) (Suc (Suc 0)) =
     [Response 204 NotJson, Response 503 NotJson]"
  by (simp add: production_outcomes_def net_abc_def net_of_def world0_def upt_rec)

lemma net_abc_answered:
  "list_all response_or_connection_error
     (production_outcomes net_abc world0 (length [event_a, event_b, event_c])
        (length (filter accepts (sandbox_outcomes net_abc world0 (length [event_a, event_b, event_c])))))"
  by (simp add: net_abc_accepts net_abc_production)

theorem send_data_counts_witness:
  "list_all well_formed (sandbox_outcomes net_abc world0 (length [event_a, event_b, event_c]))
   \<and> \<not> debug gtag_destination
   \<and> list_all response_or_connection_error
        (production_outcomes net_abc world0 (length [event_a, event_b, event_c])
           (length (filter accepts (sandbox_outcomes net_abc world0 (length [event_a, event_b, event_c])))))
   \<and> (\<exists>r w'. send_data net_abc gtag_destination [event_a, event_b, event_c] False world0 = (Inr r, w')
         \<and> successful_hits r = 2 \<and> failed_hits r = 2
         \<and> successful_hits r + failed_hits r = int (length [event_a, event_b, event_c]) + 1)"
proof -
  have d: "\<not> debug gtag_destination"
    by (simp add: gtag_destination_def)
  have c: "production_outcomes net_abc world0 (Suc (Suc (Suc 0))) 2 =
             [Response 204 NotJson, Response 503 NotJson]"
    using net_abc_production by (simp add: numeral_2_eq_2)
  from send_data_counts[OF net_abc_well_formed d net_abc_answered] obtain r w' where
    "send_data net_abc gtag_destination [event_a, event_b, event_c] False world0 = (Inr r, w')"
    and "successful_hits r = int (length (filter accepts (sandbox_outcomes net_abc world0 (length [event_a, event_b, event_c]))))"
    and "failed_hits r =
         int (length (filter (\<lambda>out. \<not> accepts out) (sandbox_outcomes net_abc world0 (length [event_a, event_b, event_c]))))
         + int (length (filter send_fails
                 (production_outcomes net_abc world0 (length [event_a, event_b, event_c]) (nat (successful_hits r)))))"
    by blast
  then have "send_data net_abc gtag_destination [event_a, event_b, event_c] False world0 = (Inr r, w')
         \<and> successful_hits r = 2 \<and> failed_hits r = 2
         \<and> successful_hits r + failed_hits r = int (length [event_a, event_b, event_c]) + 1"
    by (simp add: net_abc_accepts net_abc_rejects c)
  then have "\<exists>r w'. send_data net_abc gtag_destination [event_a, event_b, event_c] False world0 = (Inr r, w')
         \<and> successful_hits r = 2 \<and> failed_hits r = 2
         \<and> successful_hits r + failed_hits r = int (length [event_a, event_b, event_c]) + 1"
    by auto
  with net_abc_well_formed d net_abc_answered show ?thesis by (intro conjI)
qed

subsection \<open>The batch dispatcher\<close>

lemmas eval_defs =
  send_data_def get_valid_and_invalid_events_def validate_step_def
  send_validate_request_def requests_post_def parse_validate_result_def net_of_def
  world0_def body_ok_def body_client_id_def send_payload_def Let_def

text \<open>
  Claim C1 says that \<open>successful_hits + failed_hits\<close> equals the number of events of the
  batch, dry run or not. The code does not keep that: an event that the sandbox accepts
  and whose production send fails stays in the list of valid events and is appended to
  the list of invalid ones, so it is counted on both sides. For a batch of one such
  event the run result is one successful hit and one failed hit.
\<close>

theorem send_data_double_count:
  "fst (send_data (net_of [Response 200 body_ok, Response 503 NotJson]) gtag_destination
          [event_a] False world0) =
     Inr \<lparr>successful_hits = 1, failed_hits = 1,
          error_messages = [Some (Member RETRIABLE_GA_HOOK_ERROR_HTTP_ERROR)],
          dry_run = False\<rparr>
   \<and> (1::int) + 1 \<noteq> int (length [event_a])"
  by (simp add: eval_defs gtag_destination_def)

text \<open>
  Claim C6 says that in debug mode \<open>_send_payload\<close> records the intended request and
  returns. The code does not get that far: the destination built from a configuration
  with \<open>debug\<close> set has no \<open>log\<close> attribute, so \<open>_send_payload\<close> raises
  \<open>AttributeError\<close>, which \<open>send_data\<close> does not catch.
\<close>

theorem send_payload_debug_raises:
  "Destination_init debug_config = Inr debug_destination
   \<and> send_payload net_abc debug_destination (build_payload debug_destination event_a) world0 =
       (Inl AttributeError, world0)
   \<and> fst (send_data net_abc debug_destination [event_a] False world0) = Inl AttributeError"
  by (simp add: eval_defs debug_config_def debug_destination_def gtag_config_def gtag_destination_def
        net_abc_def Destination_init_def validate_credentials_def falsy_str_def FIREBASE_def GTAG_def
        build_api_url_def fmt_def GA_EVENT_POST_URL_def GA_EVENT_VALIDATION_URL_def)

text \<open>
  Claim C9 says that no exception leaves \<open>send_data\<close>, whatever the responses. A 200
  response from the sandbox whose JSON body has no \<open>validationMessages\<close> key makes
  \<open>_parse_validate_result\<close> raise \<open>KeyError\<close>, which is no connector error and leaves
  \<open>send_data\<close>.
\<close>

theorem send_data_KeyError_escapes:
  "fst (send_data (net_of [Response 200 (Json (JDict []))]) gtag_destination [event_a] True world0) =
     Inl KeyError"
  by (simp add: eval_defs gtag_destination_def)





lemma Destination_init_errors:
  assumes "Destination_init cfg = Inl e"
  shows "\<exists>m. e = DataOutConnectorValueError m None"
  using assms
  by (auto simp: Destination_init_def Let_def validate_credentials_def split: sum.splits if_splits)

text \<open>
  Claim C9, amended. For every batch whose sandbox outcomes are well-formed, on a dry run
  or with debug mode off and production requests that each end in a response or a
  connection error, no exception leaves \<open>send_data\<close>: it returns a run result, every
  validation failure and every send failure is in the list of invalid events (the error
  numbers of the validation failures in input order, then one retriable code per failed
  send), and \<open>failed_hits\<close> counts that list. The constructor issues no request, and an
  error it raises is a \<open>DataOutConnectorValueError\<close> with the constructor's default error
  number.
\<close>

theorem errors_folded_into_invalid:
  assumes wf: "list_all well_formed (sandbox_outcomes net w (length events))"
    and live: "dry \<or> (\<not> debug self
                \<and> list_all response_or_connection_error
                     (production_outcomes net w (length events)
                        (length (filter accepts (sandbox_outcomes net w (length events))))))"
  shows "(\<exists>r w'. send_data net self events dry w = (Inr r, w')
      \<and> error_messages r =
          map validation_error_num
            (filter (\<lambda>out. \<not> accepts out) (sandbox_outcomes net w (length events)))
          @ (if dry then []
             else replicate
                    (length (filter send_fails
                       (production_outcomes net w (length events)
                          (length (filter accepts (sandbox_outcomes net w (length events)))))))
                    (Some (Member RETRIABLE_GA_HOOK_ERROR_HTTP_ERROR)))
      \<and> failed_hits r = int (length (error_messages r)))
    \<and> (\<forall>e. Destination_init cfg = Inl e \<longrightarrow> (\<exists>m. e = DataOutConnectorValueError m None))"
proof
  from wf live obtain valid :: valid_events and sent w' where
    sd: "send_data net self events dry w =
        (Inr \<lparr>successful_hits = int (length valid),
              failed_hits = int (length
                (map (\<lambda>m. (m, validation_error_num (net (length (posts w) + m))))
                   (filter (\<lambda>m. \<not> accepts (net (length (posts w) + m))) [0..<length events])
                 @ sent)),
              error_messages = map snd
                (map (\<lambda>m. (m, validation_error_num (net (length (posts w) + m))))
                   (filter (\<lambda>m. \<not> accepts (net (length (posts w) + m))) [0..<length events])
                 @ sent),
              dry_run = dry\<rparr>, w')"
    and v: "map fst valid = filter (\<lambda>m. accepts (net (length (posts w) + m))) [0..<length events]"
    and s: "sent = (if dry then []
                 else map (\<lambda>p. (fst (fst p), Some (Member RETRIABLE_GA_HOOK_ERROR_HTTP_ERROR)))
                        (filter (\<lambda>p. send_fails (snd p))
                           (zip valid (production_outcomes net w (length events) (length valid)))))"
    by (rule send_data_well_formed)
  let ?S = "sandbox_outcomes net w (length events)"
  let ?P = "production_outcomes net w (length events) (length valid)"
  have lv: "length valid = length (filter accepts ?S)"
    using v by (rule length_valid_accepts)
  have ci: "map snd (map (\<lambda>m. (m, validation_error_num (net (length (posts w) + m))))
                   (filter (\<lambda>m. \<not> accepts (net (length (posts w) + m))) [0..<length events])) =
      map validation_error_num (filter (\<lambda>out. \<not> accepts out) ?S)"
    by (simp add: sandbox_outcomes_def filter_map comp_def)
  have "length valid = length ?P"
    by (simp add: production_outcomes_def)
  then have ls: "\<not> dry \<Longrightarrow> length sent = length (filter send_fails ?P)"
    using s by (simp add: length_filter_zip_snd)
  have li: "length (filter (\<lambda>m. \<not> accepts (net (length (posts w) + m))) [0..<length events]) =
              length (filter (\<lambda>out. \<not> accepts out) ?S)"
    by (simp add: filter_sandbox_outcomes)
  have lsent: "length sent = (if dry then 0 else length (filter send_fails ?P))"
    using s ls by (cases dry) simp_all
  have cs: "map snd sent =
      (if dry then []
       else replicate (length (filter send_fails ?P)) (Some (Member RETRIABLE_GA_HOOK_ERROR_HTTP_ERROR)))"
  proof (cases dry)
    case True
    with s show ?thesis by simp
  next
    case False
    have "map snd sent = replicate (length sent) (Some (Member RETRIABLE_GA_HOOK_ERROR_HTTP_ERROR))"
      using s False by (simp add: comp_def map_replicate_const)
    with ls[OF False] False show ?thesis by simp
  qed
  show "\<exists>r w'. send_data net self events dry w = (Inr r, w')
      \<and> error_messages r =
          map validation_error_num (filter (\<lambda>out. \<not> accepts out) ?S)
          @ (if dry then []
             else replicate
                    (length (filter send_fails
                       (production_outcomes net w (length events) (length (filter accepts ?S)))))
                    (Some (Member RETRIABLE_GA_HOOK_ERROR_HTTP_ERROR)))
      \<and> failed_hits r = int (length (error_messages r))"
    using ci cs li lsent unfolding sd by (simp add: lv del: map_map)
next
  show "\<forall>e. Destination_init cfg = Inl e \<longrightarrow> (\<exists>m. e = DataOutConnectorValueError m None)"
    using Destination_init_errors by blast
qed

theorem errors_folded_into_invalid_witness:
  "list_all well_formed (sandbox_outcomes net_abc world0 (length [event_a, event_b, event_c]))
   \<and> \<not> debug gtag_destination
   \<and> list_all response_or_connection_error
        (production_outcomes net_abc world0 (length [event_a, event_b, event_c])
           (length (filter accepts (sandbox_outcomes net_abc world0 (length [event_a, event_b, event_c])))))
   \<and> (\<exists>r w'. send_data net_abc gtag_destination [event_a, event_b, event_c] False world0 = (Inr r, w')
         \<and> error_messages r =
             [Some (Member GA4_HOOK_ERROR_VALUE_REQUIRED_CLIENT_ID),
              Some (Member RETRIABLE_GA_HOOK_ERROR_HTTP_ERROR)]
         \<and> failed_hits r = 2)
   \<and> Destination_init (gtag_config\<lparr>cfg_api_secret := None\<rparr>) =
        Inl (DataOutConnectorValueError MissingApiSecret None)
   \<and> (\<exists>m. Destination_init (gtag_config\<lparr>cfg_api_secret := None\<rparr>) =
        Inl (DataOutConnectorValueError m None))"
proof -
  have d: "\<not> debug gtag_destination"
    by (simp add: gtag_destination_def)
  with net_abc_answered have l: "False \<or> (\<not> debug gtag_destination
     \<and> list_all response_or_connection_error
        (production_outcomes net_abc world0 (length [event_a, event_b, event_c])
           (length (filter accepts (sandbox_outcomes net_abc world0 (length [event_a, event_b, event_c]))))))"
    by simp
  have b: "Destination_init (gtag_config\<lparr>cfg_api_secret := None\<rparr>) =
        Inl (DataOutConnectorValueError MissingApiSecret None)"
    by (simp add: Destination_init_def gtag_config_def validate_credentials_def falsy_str_def Let_def)
  note t = errors_folded_into_invalid[OF net_abc_well_formed l, of "gtag_config\<lparr>cfg_api_secret := None\<rparr>"]
  from t b have m: "\<exists>m. Destination_init (gtag_config\<lparr>cfg_api_secret := None\<rparr>) =
        Inl (DataOutConnectorValueError m None)"
    by blast
  from t obtain r w' where
    "send_data net_abc gtag_destination [event_a, event_b, event_c] False world0 = (Inr r, w')"
    "error_messages r =
          map validation_error_num (filter (\<lambda>out. \<not> accepts out)
            (sandbox_outcomes net_abc world0 (length [event_a, event_b, event_c])))
          @ (if False then []
             else replicate
                    (length (filter send_fails
                       (production_outcomes net_abc world0 (length [event_a, event_b, event_c])
                          (length (filter accepts
                             (sandbox_outcomes net_abc world0 (length [event_a, event_b, event_c])))))))
                    (Some (Member RETRIABLE_GA_HOOK_ERROR_HTTP_ERROR)))"
    "failed_hits r = int (length (error_messages r))"
    by blast
  then have "send_data net_abc gtag_destination [event_a, event_b, event_c] False world0 = (Inr r, w')
         \<and> error_messages r =
             [Some (Member GA4_HOOK_ERROR_VALUE_REQUIRED_CLIENT_ID),
              Some (Member RETRIABLE_GA_HOOK_ERROR_HTTP_ERROR)]
         \<and> failed_hits r = 2"
    by (simp add: net_abc_accepts net_abc_rejects net_abc_production validation_error_num_def
          body_client_id_def validation_messages_def diagnostic_text_def DiagnosticClassifier_spec_def
          ERROR_TYPES_def table_match_def)
  then have "\<exists>r w'. send_data net_abc gtag_destination [event_a, event_b, event_c] False world0 = (Inr r, w')
         \<and> error_messages r =
             [Some (Member GA4_HOOK_ERROR_VALUE_REQUIRED_CLIENT_ID),
              Some (Member RETRIABLE_GA_HOOK_ERROR_HTTP_ERROR)]
         \<and> failed_hits r = 2"
    by auto
  with net_abc_well_formed d net_abc_answered have
    "list_all well_formed (sandbox_outcomes net_abc world0 (length [event_a, event_b, event_c]))
     \<and> \<not> debug gtag_destination
     \<and> list_all response_or_connection_error
        (production_outcomes net_abc world0 (length [event_a, event_b, event_c])
           (length (filter accepts (sandbox_outcomes net_abc world0 (length [event_a, event_b, event_c])))))
     \<and> (\<exists>r w'. send_data net_abc gtag_destination [event_a, event_b, event_c] False world0 = (Inr r, w')
         \<and> error_messages r =
             [Some (Member GA4_HOOK_ERROR_VALUE_REQUIRED_CLIENT_ID),
              Some (Member RETRIABLE_GA_HOOK_ERROR_HTTP_ERROR)]
         \<and> failed_hits r = 2)"
    by (intro conjI)
  with b m show ?thesis by simp
qed

subsection \<open>The run poller\<close>












subsection \<open>The run aggregator\<close>
















end
